theory Spec2Isabelle
  imports Main "HOL-Library.Sublist"
begin

section \<open>The values the server handles\<close>

text \<open>
  The server (\<^verbatim>\<open>src/simple_mcp_server.py\<close>) reads one line at a time, decodes it with
  \<^verbatim>\<open>json.loads\<close>, and answers with a Python dict that it prints with \<^verbatim>\<open>json.dumps\<close>.
  Every value it touches is therefore a decoded JSON value: \<^verbatim>\<open>None\<close>, a bool, an int,
  a float, a str, a list or a dict with str keys.

  Strings are \<open>string\<close>, read as UTF-8 bytes. The program only concatenates strings and
  tests them for emptiness and equality, which bytes and code points agree on.

  A float is kept as the two things the program can observe of it: its truth value
  (\<^verbatim>\<open>bool(x)\<close>, false for \<^verbatim>\<open>0.0\<close> and \<^verbatim>\<open>-0.0\<close>) and its \<^verbatim>\<open>repr\<close>. No arithmetic is done
  on any number.

  A dict is an association list in insertion order, looked up with \<open>map_of\<close>;
  \<^verbatim>\<open>json.loads\<close> produces dicts with distinct keys.
\<close>

datatype json =
    JNull
  | JBool bool
  | JInt int
  | JFloat (float_nonzero: bool) (float_repr: string)
  | JStr string
  | JArr "json list"
  | JObj "(string \<times> json) list"

text \<open>
  The exceptions the program distinguishes: \<^verbatim>\<open>main\<close> has one handler for
  \<^verbatim>\<open>json.JSONDecodeError\<close> and one for every other \<^verbatim>\<open>Exception\<close>; the two tool functions
  catch every \<^verbatim>\<open>Exception\<close>. Each carries \<^verbatim>\<open>str(e)\<close>, the only thing the handlers read.
\<close>

datatype exn =
    JSONDecodeError string
  | AttributeError string
  | OtherException string

fun exn_str :: "exn \<Rightarrow> string" where
  "exn_str (JSONDecodeError m) = m"
| "exn_str (AttributeError m) = m"
| "exn_str (OtherException m) = m"

subsection \<open>The HTTP collaborator\<close>

text \<open>
  What \<^verbatim>\<open>httpx\<close> hands back: a status code, and the outcome of \<^verbatim>\<open>response.json()\<close>,
  which raises when the body is not JSON.
\<close>

record response =
  status_code :: int
  json_body :: "exn + json"

type_synonym headers = "(string \<times> string) list"

datatype http_call =
    POST string json headers
  | GET string headers
  | DELETE string headers

text \<open>
  The state of the outside world is the sequence of calls made so far; every tool function
  takes it and returns it extended by the calls it made.
\<close>

type_synonym trace = "http_call list"

text \<open>
  Everything the program takes from outside the repository:
  \<^item> \<open>GITHUB_TOKEN\<close>, the module constant read from the environment at start-up;
  \<^item> \<open>loads_stripped\<close>, \<^verbatim>\<open>json.loads(line.strip())\<close>: the decoded value or the exception;
  \<^item> \<open>str_repr\<close>, Python's \<^verbatim>\<open>repr\<close> of a str (used when a list or dict is formatted);
  \<^item> \<open>http\<close>, the hosting API behind \<^verbatim>\<open>httpx\<close>: given the calls made so far and the
    call made now, the response, or the exception the call raises.
\<close>

record runtime =
  GITHUB_TOKEN :: string
  loads_stripped :: "string \<Rightarrow> exn + json"
  str_repr :: "string \<Rightarrow> string"
  http :: "trace \<Rightarrow> http_call \<Rightarrow> exn + response"

definition request :: "runtime \<Rightarrow> http_call \<Rightarrow> trace \<Rightarrow> (exn + response) \<times> trace" where
  "request rt c tr = (http rt tr c, tr @ [c])"

subsection \<open>Python's built-ins on these values\<close>

definition apostrophe :: string where
  "apostrophe = [CHR 0x27]"

definition newline :: string where
  "newline = [CHR 0x0A]"

text \<open>The two emoji of the messages, U+2705 and U+274C, in UTF-8.\<close>

definition check_mark :: string where
  "check_mark = [CHR 0xE2, CHR 0x9C, CHR 0x85]"

definition cross_mark :: string where
  "cross_mark = [CHR 0xE2, CHR 0x9D, CHR 0x8C]"

definition digit_char :: "nat \<Rightarrow> char" where
  "digit_char d = ''0123456789'' ! d"

fun show_nat :: "nat \<Rightarrow> string" where
  "show_nat n = (if n < 10 then [digit_char n] else show_nat (n div 10) @ [digit_char (n mod 10)])"

declare show_nat.simps [simp del]

definition show_int :: "int \<Rightarrow> string" where
  "show_int i = (if i < 0 then ''-'' @ show_nat (nat (- i)) else show_nat (nat i))"

fun join_sep :: "string \<Rightarrow> string list \<Rightarrow> string" where
  "join_sep sep [] = []"
| "join_sep sep [x] = x"
| "join_sep sep (x # y # ys) = x @ sep @ join_sep sep (y # ys)"

text \<open>\<^verbatim>\<open>repr(v)\<close>, given \<^verbatim>\<open>repr\<close> on str.\<close>

fun py_repr :: "(string \<Rightarrow> string) \<Rightarrow> json \<Rightarrow> string" where
  "py_repr rs JNull = ''None''"
| "py_repr rs (JBool b) = (if b then ''True'' else ''False'')"
| "py_repr rs (JInt i) = show_int i"
| "py_repr rs (JFloat nz r) = r"
| "py_repr rs (JStr s) = rs s"
| "py_repr rs (JArr xs) = ''['' @ join_sep '', '' (map (py_repr rs) xs) @ '']''"
| "py_repr rs (JObj kvs) =
     ''{'' @ join_sep '', '' (map (\<lambda>kv. rs (fst kv) @ '': '' @ py_repr rs (snd kv)) kvs) @ ''}''"

text \<open>\<^verbatim>\<open>str(v)\<close>, which is what an f-string field \<^verbatim>\<open>{v}\<close> inserts.\<close>

definition py_str :: "runtime \<Rightarrow> json \<Rightarrow> string" where
  "py_str rt v = (case v of JStr s \<Rightarrow> s | _ \<Rightarrow> py_repr (str_repr rt) v)"

text \<open>\<^verbatim>\<open>bool(v)\<close>, the test behind \<^verbatim>\<open>if not v\<close>.\<close>

fun truthy :: "json \<Rightarrow> bool" where
  "truthy JNull = False"
| "truthy (JBool b) = b"
| "truthy (JInt i) = (i \<noteq> 0)"
| "truthy (JFloat nz r) = nz"
| "truthy (JStr s) = (s \<noteq> [])"
| "truthy (JArr xs) = (xs \<noteq> [])"
| "truthy (JObj kvs) = (kvs \<noteq> [])"

fun type_name :: "json \<Rightarrow> string" where
  "type_name JNull = ''NoneType''"
| "type_name (JBool b) = ''bool''"
| "type_name (JInt i) = ''int''"
| "type_name (JFloat nz r) = ''float''"
| "type_name (JStr s) = ''str''"
| "type_name (JArr xs) = ''list''"
| "type_name (JObj kvs) = ''dict''"

text \<open>
  \<^verbatim>\<open>d.get(k, default)\<close>. Only a dict has \<^verbatim>\<open>get\<close>: on any other value the attribute
  lookup raises \<^verbatim>\<open>AttributeError: 'list' object has no attribute 'get'\<close>.
\<close>

definition no_attribute_get :: "json \<Rightarrow> exn" where
  "no_attribute_get v =
     AttributeError (apostrophe @ type_name v @ apostrophe @ '' object has no attribute ''
       @ apostrophe @ ''get'' @ apostrophe)"

definition py_get :: "json \<Rightarrow> string \<Rightarrow> json \<Rightarrow> exn + json" where
  "py_get d k dflt =
     (case d of
        JObj kvs \<Rightarrow> Inr (case map_of kvs k of Some v \<Rightarrow> v | None \<Rightarrow> dflt)
      | _ \<Rightarrow> Inl (no_attribute_get d))"

text \<open>\<^verbatim>\<open>k in d\<close> for a dict \<open>d\<close>.\<close>

definition has_key :: "json \<Rightarrow> string \<Rightarrow> bool" where
  "has_key d k = (case d of JObj kvs \<Rightarrow> map_of kvs k \<noteq> None | _ \<Rightarrow> False)"

fun try_bind :: "exn + 'a \<Rightarrow> ('a \<Rightarrow> exn + 'b) \<Rightarrow> exn + 'b" where
  "try_bind (Inl e) f = Inl e"
| "try_bind (Inr x) f = f x"

section \<open>The tool executor\<close>

text \<open>
  The two shapes of Tool Result the source writes out as dict literals: a single text
  item, without and with \<^verbatim>\<open>"isError": True\<close>.
\<close>

definition text_content :: "string \<Rightarrow> json" where
  "text_content t =
     JObj [(''content'', JArr [JObj [(''type'', JStr ''text''), (''text'', JStr t)]])]"

definition error_content :: "string \<Rightarrow> json" where
  "error_content t =
     JObj [(''content'', JArr [JObj [(''type'', JStr ''text''), (''text'', JStr t)]]),
           (''isError'', JBool True)]"

definition GITHUB_API_URL :: string where
  "GITHUB_API_URL = ''https://api.github.com/user/repos''"

definition auth_headers :: "runtime \<Rightarrow> headers" where
  "auth_headers rt =
     [(''Authorization'', ''token '' @ GITHUB_TOKEN rt),
      (''Accept'', ''application/vnd.github+json'')]"

subsection \<open>\<^verbatim>\<open>create_github_repository\<close>\<close>

text \<open>
  \<^verbatim>\<open>json_data\<close>: the three fixed entries, then \<^verbatim>\<open>description\<close> when
  \<^verbatim>\<open>"description" in arguments\<close>.
\<close>

definition create_payload :: "json \<Rightarrow> json \<Rightarrow> exn + json" where
  "create_payload arguments repo_name =
     try_bind (py_get arguments ''private'' (JBool False)) (\<lambda>private.
     try_bind (py_get arguments ''auto_init'' (JBool True)) (\<lambda>auto_init.
     try_bind (py_get arguments ''description'' JNull) (\<lambda>description.
       Inr (JObj ([(''name'', repo_name), (''private'', private), (''auto_init'', auto_init)]
                  @ (if has_key arguments ''description''
                     then [(''description'', description)] else []))))))"

text \<open>Lines 190 to 214: what is made of the response to the creation call.\<close>

definition create_reply :: "runtime \<Rightarrow> json \<Rightarrow> response \<Rightarrow> exn + json" where
  "create_reply rt repo_name resp =
     (if status_code resp = 201 then
        try_bind (json_body resp) (\<lambda>repo_data.
        try_bind (py_get repo_data ''html_url'' (JStr ''Unknown'')) (\<lambda>repo_url.
        try_bind (py_get repo_data ''clone_url'' (JStr ''Unknown'')) (\<lambda>clone_url.
          Inr (text_content
            (check_mark @ '' Successfully created GitHub repository '' @ apostrophe
             @ py_str rt repo_name @ apostrophe @ ''!'' @ newline @ newline
             @ ''Repository URL: '' @ py_str rt repo_url @ newline
             @ ''Clone URL: '' @ py_str rt clone_url)))))
      else
        try_bind (json_body resp) (\<lambda>error_data.
        try_bind (py_get error_data ''message'' (JStr ''Unknown error'')) (\<lambda>error_message.
          Inr (error_content
            (cross_mark @ '' Failed to create repository: '' @ py_str rt error_message
             @ '' (Status: '' @ show_int (status_code resp) @ '')'')))))"

text \<open>The body of the \<^verbatim>\<open>try\<close>: the result it returns, or the exception it raises.\<close>

definition create_try :: "runtime \<Rightarrow> json \<Rightarrow> trace \<Rightarrow> (exn + json) \<times> trace" where
  "create_try rt arguments tr =
     (case py_get arguments ''name'' JNull of
        Inl e \<Rightarrow> (Inl e, tr)
      | Inr repo_name \<Rightarrow>
          if \<not> truthy repo_name
          then (Inr (error_content ''Error: Repository name is required''), tr)
          else
            (case create_payload arguments repo_name of
               Inl e \<Rightarrow> (Inl e, tr)
             | Inr json_data \<Rightarrow>
                 (case request rt (POST GITHUB_API_URL json_data (auth_headers rt)) tr of
                    (r, tr') \<Rightarrow> (try_bind r (create_reply rt repo_name), tr'))))"

definition create_github_repository :: "runtime \<Rightarrow> json \<Rightarrow> trace \<Rightarrow> json \<times> trace" where
  "create_github_repository rt arguments tr =
     (case create_try rt arguments tr of
        (Inr result, tr') \<Rightarrow> (result, tr')
      | (Inl e, tr') \<Rightarrow>
          (error_content (cross_mark @ '' Error creating repository: '' @ exn_str e), tr'))"

subsection \<open>\<^verbatim>\<open>delete_github_repository\<close>\<close>

text \<open>Lines 270 to 291: what is made of the response to the deletion call.\<close>

definition delete_reply :: "runtime \<Rightarrow> json \<Rightarrow> response \<Rightarrow> exn + json" where
  "delete_reply rt repo_name resp =
     (if status_code resp = 204 then
        Inr (text_content
          (check_mark @ '' Successfully deleted GitHub repository '' @ apostrophe
           @ py_str rt repo_name @ apostrophe))
      else
        try_bind (json_body resp) (\<lambda>error_data.
        try_bind (py_get error_data ''message'' (JStr ''Unknown error'')) (\<lambda>error_message.
          Inr (error_content
            (cross_mark @ '' Failed to delete repository: '' @ py_str rt error_message
             @ '' (Status: '' @ show_int (status_code resp) @ '')'')))))"

definition delete_try :: "runtime \<Rightarrow> json \<Rightarrow> trace \<Rightarrow> (exn + json) \<times> trace" where
  "delete_try rt arguments tr =
     (case py_get arguments ''name'' JNull of
        Inl e \<Rightarrow> (Inl e, tr)
      | Inr repo_name \<Rightarrow>
          if \<not> truthy repo_name
          then (Inr (error_content ''Error: Repository name is required''), tr)
          else
            (case request rt (GET ''https://api.github.com/user'' (auth_headers rt)) tr of
               (Inl e, tr1) \<Rightarrow> (Inl e, tr1)
             | (Inr user_response, tr1) \<Rightarrow>
                 if status_code user_response \<noteq> 200
                 then (Inr (error_content
                         (cross_mark @ '' Failed to get user info: ''
                          @ show_int (status_code user_response))), tr1)
                 else
                   (case try_bind (json_body user_response)
                           (\<lambda>user_data. py_get user_data ''login'' JNull) of
                      Inl e \<Rightarrow> (Inl e, tr1)
                    | Inr username \<Rightarrow>
                        (case request rt
                                (DELETE (''https://api.github.com/repos/'' @ py_str rt username
                                         @ ''/'' @ py_str rt repo_name) (auth_headers rt)) tr1 of
                           (r, tr2) \<Rightarrow> (try_bind r (delete_reply rt repo_name), tr2)))))"

definition delete_github_repository :: "runtime \<Rightarrow> json \<Rightarrow> trace \<Rightarrow> json \<times> trace" where
  "delete_github_repository rt arguments tr =
     (case delete_try rt arguments tr of
        (Inr result, tr') \<Rightarrow> (result, tr')
      | (Inl e, tr') \<Rightarrow>
          (error_content (cross_mark @ '' Error deleting repository: '' @ exn_str e), tr'))"

section \<open>The message dispatcher\<close>

definition server_name :: string where
  "server_name = ''github-repo-creator''"

definition server_version :: string where
  "server_version = ''1.0.0''"

definition handle_initialize :: "json \<Rightarrow> json \<Rightarrow> json" where
  "handle_initialize message msg_id =
     JObj [(''jsonrpc'', JStr ''2.0''),
           (''id'', msg_id),
           (''result'', JObj
              [(''protocolVersion'', JStr ''2024-11-05''),
               (''capabilities'', JObj [(''tools'', JObj [])]),
               (''serverInfo'', JObj [(''name'', JStr server_name),
                                      (''version'', JStr server_version)])])]"

definition create_descriptor :: json where
  "create_descriptor =
     JObj [(''name'', JStr ''create_github_repository''),
           (''description'', JStr ''Create a new GitHub repository''),
           (''inputSchema'', JObj
              [(''type'', JStr ''object''),
               (''properties'', JObj
                  [(''name'', JObj [(''type'', JStr ''string''),
                       (''description'', JStr ''Name of the repository to create'')]),
                   (''private'', JObj [(''type'', JStr ''boolean''),
                       (''description'', JStr ''Whether the repository should be private''),
                       (''default'', JBool False)]),
                   (''description'', JObj [(''type'', JStr ''string''),
                       (''description'', JStr ''Description of the repository'')]),
                   (''auto_init'', JObj [(''type'', JStr ''boolean''),
                       (''description'', JStr ''Initialize repository with README''),
                       (''default'', JBool True)])]),
               (''required'', JArr [JStr ''name''])])]"

definition delete_descriptor :: json where
  "delete_descriptor =
     JObj [(''name'', JStr ''delete_github_repository''),
           (''description'', JStr ''Delete a GitHub repository''),
           (''inputSchema'', JObj
              [(''type'', JStr ''object''),
               (''properties'', JObj
                  [(''name'', JObj [(''type'', JStr ''string''),
                       (''description'', JStr ''Name of the repository to delete'')])]),
               (''required'', JArr [JStr ''name''])])]"

definition handle_list_tools :: "json \<Rightarrow> json" where
  "handle_list_tools msg_id =
     JObj [(''jsonrpc'', JStr ''2.0''),
           (''id'', msg_id),
           (''result'', JObj [(''tools'', JArr [create_descriptor, delete_descriptor])])]"

text \<open>
  \<^verbatim>\<open>handle_call_tool\<close> has no \<^verbatim>\<open>try\<close>: an \<^verbatim>\<open>AttributeError\<close> from \<^verbatim>\<open>params.get\<close> leaves it
  and \<^verbatim>\<open>handle_message\<close>, and is caught in \<^verbatim>\<open>main\<close>.
\<close>

definition handle_call_tool :: "runtime \<Rightarrow> json \<Rightarrow> json \<Rightarrow> trace \<Rightarrow> (exn + json) \<times> trace" where
  "handle_call_tool rt message msg_id tr =
     (case try_bind (py_get message ''params'' (JObj [])) (\<lambda>params.
           try_bind (py_get params ''name'' JNull) (\<lambda>tool_name.
           try_bind (py_get params ''arguments'' (JObj [])) (\<lambda>arguments.
             Inr (tool_name, arguments)))) of
        Inl e \<Rightarrow> (Inl e, tr)
      | Inr (tool_name, arguments) \<Rightarrow>
          if tool_name = JStr ''create_github_repository'' then
            (case create_github_repository rt arguments tr of
               (result, tr') \<Rightarrow>
                 (Inr (JObj [(''jsonrpc'', JStr ''2.0''), (''id'', msg_id), (''result'', result)]),
                  tr'))
          else if tool_name = JStr ''delete_github_repository'' then
            (case delete_github_repository rt arguments tr of
               (result, tr') \<Rightarrow>
                 (Inr (JObj [(''jsonrpc'', JStr ''2.0''), (''id'', msg_id), (''result'', result)]),
                  tr'))
          else
            (Inr (JObj [(''jsonrpc'', JStr ''2.0''),
                        (''id'', msg_id),
                        (''error'', JObj [(''code'', JInt (- 32601)),
                                          (''message'', JStr (''Unknown tool: ''
                                                              @ py_str rt tool_name))])]),
             tr))"

definition handle_message :: "runtime \<Rightarrow> json \<Rightarrow> trace \<Rightarrow> (exn + json) \<times> trace" where
  "handle_message rt message tr =
     (case try_bind (py_get message ''method'' JNull) (\<lambda>method.
           try_bind (py_get message ''id'' JNull) (\<lambda>msg_id. Inr (method, msg_id))) of
        Inl e \<Rightarrow> (Inl e, tr)
      | Inr (method, msg_id) \<Rightarrow>
          if method = JStr ''initialize'' then (Inr (handle_initialize message msg_id), tr)
          else if method = JStr ''tools/list'' then (Inr (handle_list_tools msg_id), tr)
          else if method = JStr ''tools/call'' then handle_call_tool rt message msg_id tr
          else
            (Inr (JObj [(''jsonrpc'', JStr ''2.0''),
                        (''id'', msg_id),
                        (''error'', JObj [(''code'', JInt (- 32601)),
                                          (''message'', JStr (''Method not found: ''
                                                              @ py_str rt method))])]),
             tr))"

section \<open>The transport loop\<close>

definition parse_error_response :: "string \<Rightarrow> json" where
  "parse_error_response m =
     JObj [(''jsonrpc'', JStr ''2.0''),
           (''error'', JObj [(''code'', JInt (- 32700)),
                             (''message'', JStr (''Parse error: '' @ m))])]"

definition internal_error_response :: "string \<Rightarrow> json" where
  "internal_error_response m =
     JObj [(''jsonrpc'', JStr ''2.0''),
           (''error'', JObj [(''code'', JInt (- 32603)),
                             (''message'', JStr (''Internal error: '' @ m))])]"

text \<open>
  One pass through the body of \<^verbatim>\<open>while True\<close> for a line that is not the end of the
  stream: the dict that is printed, and the calls made. The \<^verbatim>\<open>try\<close> covers decoding and
  dispatch; the first handler takes a \<^verbatim>\<open>JSONDecodeError\<close>, the second everything else.
\<close>

definition serve_line :: "runtime \<Rightarrow> string \<Rightarrow> trace \<Rightarrow> json \<times> trace" where
  "serve_line rt line tr =
     (case (case loads_stripped rt line of
              Inl e \<Rightarrow> (Inl e, tr)
            | Inr message \<Rightarrow> handle_message rt message tr) of
        (Inr resp, tr') \<Rightarrow> (resp, tr')
      | (Inl (JSONDecodeError m), tr') \<Rightarrow> (parse_error_response m, tr')
      | (Inl e, tr') \<Rightarrow> (internal_error_response (exn_str e), tr'))"

text \<open>
  \<^verbatim>\<open>main\<close> over the lines that \<^verbatim>\<open>sys.stdin.readline\<close> will return. At the end of the
  stream \<^verbatim>\<open>readline\<close> returns the empty string, and \<^verbatim>\<open>if not line: break\<close> leaves the loop;
  a line read before the end is never empty (it holds at least its newline). The result
  is the list of dicts printed to standard output, in order, and the calls made. The two
  start-up messages go to standard error and are no part of it.
\<close>

fun main :: "runtime \<Rightarrow> string list \<Rightarrow> trace \<Rightarrow> json list \<times> trace" where
  "main rt [] tr = ([], tr)"
| "main rt (line # stdin) tr =
     (if line = [] then ([], tr)
      else
        (case serve_line rt line tr of
           (out, tr') \<Rightarrow>
             (case main rt stdin tr' of
                (outs, tr'') \<Rightarrow> (out # outs, tr''))))"

section \<open>Reading responses and traces\<close>

text \<open>\<^verbatim>\<open>d[k]\<close> when \<open>d\<close> is a dict holding \<open>k\<close>, as an option.\<close>

definition field :: "json \<Rightarrow> string \<Rightarrow> json option" where
  "field d k = (case d of JObj kvs \<Rightarrow> map_of kvs k | _ \<Rightarrow> None)"


text \<open>The text of a Tool Result whose content is a single text item.\<close>

definition result_text :: "json \<Rightarrow> string option" where
  "result_text r =
     (case field r ''content'' of
        Some (JArr [item]) \<Rightarrow> (case field item ''text'' of Some (JStr t) \<Rightarrow> Some t | _ \<Rightarrow> None)
      | _ \<Rightarrow> None)"

text \<open>The code and the message of the error object of a Response, if it has one.\<close>

definition error_code :: "json \<Rightarrow> json option" where
  "error_code r = (case field r ''error'' of Some e \<Rightarrow> field e ''code'' | None \<Rightarrow> None)"

definition error_message :: "json \<Rightarrow> json option" where
  "error_message r = (case field r ''error'' of Some e \<Rightarrow> field e ''message'' | None \<Rightarrow> None)"

fun is_delete :: "http_call \<Rightarrow> bool" where
  "is_delete (DELETE url hs) = True"
| "is_delete c = False"


text \<open>
  A runtime for concrete runs: a fixed token, a given decoder, \<^verbatim>\<open>repr\<close> of a str as the
  str between apostrophes (right for a str without quotes, backslashes or control
  characters), and a hosting API that answers by the call alone.
\<close>

definition stub :: "(string \<Rightarrow> exn + json) \<Rightarrow> (http_call \<Rightarrow> exn + response) \<Rightarrow> runtime" where
  "stub decode api =
     \<lparr>GITHUB_TOKEN = ''secret'', loads_stripped = decode,
      str_repr = (\<lambda>s. apostrophe @ s @ apostrophe), http = (\<lambda>tr. api)\<rparr>"

text \<open>A hosting API that must not be reached: every call raises.\<close>

definition unreachable_api :: "http_call \<Rightarrow> exn + response" where
  "unreachable_api c = Inl (OtherException ''stub transport invoked'')"

section \<open>Concrete runs\<close>

text \<open>Three input lines and what \<^verbatim>\<open>json.loads\<close> makes of them.\<close>

definition line_malformed :: string where
  \<open>line_malformed = ''not json''\<close>

definition line_unknown_method :: string where
  \<open>line_unknown_method = ''{"jsonrpc": "2.0", "id": "abc", "method": "resources/list"}''\<close>

definition line_params_list :: string where
  \<open>line_params_list = ''{"jsonrpc": "2.0", "id": 7, "method": "tools/call", "params": []}''\<close>

definition request_unknown_method :: "(string \<times> json) list" where
  "request_unknown_method =
     [(''jsonrpc'', JStr ''2.0''), (''id'', JStr ''abc''), (''method'', JStr ''resources/list'')]"

definition request_params_list :: "(string \<times> json) list" where
  "request_params_list =
     [(''jsonrpc'', JStr ''2.0''), (''id'', JInt 7), (''method'', JStr ''tools/call''),
      (''params'', JArr [])]"

definition demo_loads :: "string \<Rightarrow> exn + json" where
  "demo_loads l =
     (if l = line_unknown_method then Inr (JObj request_unknown_method)
      else if l = line_params_list then Inr (JObj request_params_list)
      else Inl (JSONDecodeError ''Expecting value: line 1 column 1 (char 0)''))"

text \<open>Four hosting APIs, each answering one kind of call and failing every other.\<close>

definition api_unauthorized :: "http_call \<Rightarrow> exn + response" where
  "api_unauthorized c =
     (case c of
        GET url hs \<Rightarrow>
          Inr \<lparr>status_code = 401, json_body = Inr (JObj [(''message'', JStr ''Bad credentials'')])\<rparr>
      | _ \<Rightarrow> Inl (OtherException ''stub transport invoked''))"

definition api_created :: "http_call \<Rightarrow> exn + response" where
  "api_created c =
     (case c of
        POST url payload hs \<Rightarrow>
          Inr \<lparr>status_code = 201,
               json_body = Inr (JObj [(''id'', JInt 1296269),
                                      (''html_url'', JStr ''https://github.com/octocat/demo''),
                                      (''clone_url'', JStr ''https://github.com/octocat/demo.git'')])\<rparr>
      | _ \<Rightarrow> Inl (OtherException ''stub transport invoked''))"

definition api_unprocessable :: "http_call \<Rightarrow> exn + response" where
  "api_unprocessable c =
     (case c of
        POST url payload hs \<Rightarrow>
          Inr \<lparr>status_code = 422,
               json_body = Inr (JObj [(''message'', JStr ''Repository creation failed.'')])\<rparr>
      | _ \<Rightarrow> Inl (OtherException ''stub transport invoked''))"

definition api_bad_gateway :: "http_call \<Rightarrow> exn + response" where
  "api_bad_gateway c =
     (case c of
        POST url payload hs \<Rightarrow>
          Inr \<lparr>status_code = 502,
               json_body = Inl (JSONDecodeError ''Expecting value: line 1 column 1 (char 0)'')\<rparr>
      | _ \<Rightarrow> Inl (OtherException ''stub transport invoked''))"

text \<open>
  A line of a thousand opening brackets. \<^verbatim>\<open>json.loads\<close> does not reject it with a
  \<^verbatim>\<open>JSONDecodeError\<close>: the decoder exceeds the recursion limit and raises
  \<^verbatim>\<open>RecursionError\<close>.
\<close>

definition line_deep_nesting :: string where
  "line_deep_nesting = replicate 1000 (CHR ''['')"

definition deep_loads :: "string \<Rightarrow> exn + json" where
  "deep_loads l =
     (if l = line_deep_nesting
      then Inl (OtherException
        ''maximum recursion depth exceeded while decoding a JSON array from a unicode string'')
      else demo_loads l)"

section \<open>Basic facts\<close>

lemma py_get_JObj:
  "py_get (JObj kvs) k d = Inr (case map_of kvs k of Some v \<Rightarrow> v | None \<Rightarrow> d)"
  by (simp add: py_get_def)


lemma result_text_error_content: "result_text (error_content t) = Some t"
  by (simp add: result_text_def error_content_def field_def)

lemma result_text_text_content: "result_text (text_content t) = Some t"
  by (simp add: result_text_def text_content_def field_def)

lemma isError_error_content: "field (error_content t) ''isError'' = Some (JBool True)"
  by (simp add: error_content_def field_def)

lemma isError_text_content: "\<not> has_key (text_content t) ''isError''"
  by (simp add: text_content_def has_key_def)

lemma error_code_of_error:
  "error_code (JObj [(''jsonrpc'', v), (''id'', i),
                     (''error'', JObj [(''code'', c), (''message'', m)])]) = Some c"
  by (simp add: error_code_def field_def)

lemma error_code_of_result:
  "error_code (JObj [(''jsonrpc'', v), (''id'', i), (''result'', r)]) = None"
  by (simp add: error_code_def field_def)

lemma error_responses_code:
  "error_code (parse_error_response m) = Some (JInt (- 32700))"
  "error_code (internal_error_response m) = Some (JInt (- 32603))"
  by (simp_all add: parse_error_response_def internal_error_response_def error_code_def field_def)

lemma error_responses_shape:
  "has_key (parse_error_response m) ''result'' \<noteq> has_key (parse_error_response m) ''error''"
  "has_key (internal_error_response m) ''result'' \<noteq> has_key (internal_error_response m) ''error''"
  by (simp_all add: parse_error_response_def internal_error_response_def has_key_def)

subsection \<open>The tool executor\<close>

lemma create_falsy_name:
  "\<not> truthy (case map_of kvs ''name'' of Some v \<Rightarrow> v | None \<Rightarrow> JNull) \<Longrightarrow>
   create_github_repository rt (JObj kvs) tr =
     (error_content ''Error: Repository name is required'', tr)"
  by (simp add: create_github_repository_def create_try_def py_get_JObj)

lemma delete_falsy_name:
  "\<not> truthy (case map_of kvs ''name'' of Some v \<Rightarrow> v | None \<Rightarrow> JNull) \<Longrightarrow>
   delete_github_repository rt (JObj kvs) tr =
     (error_content ''Error: Repository name is required'', tr)"
  by (simp add: delete_github_repository_def delete_try_def py_get_JObj)

text \<open>On a dict, building the payload never raises.\<close>

lemma create_payload_dict:
  "create_payload (JObj kvs) n =
     Inr (JObj ([(''name'', n),
                 (''private'', case map_of kvs ''private'' of Some v \<Rightarrow> v | None \<Rightarrow> JBool False),
                 (''auto_init'', case map_of kvs ''auto_init'' of Some v \<Rightarrow> v | None \<Rightarrow> JBool True)]
                @ (case map_of kvs ''description'' of
                     Some d \<Rightarrow> [(''description'', d)] | None \<Rightarrow> [])))"
  by (simp add: create_payload_def py_get_JObj has_key_def split: option.splits)

text \<open>With a truthy name exactly one call is made, and the reply is made of its outcome.\<close>

lemma create_truthy_name:
  assumes "map_of kvs ''name'' = Some n" and "truthy n"
    and "create_payload (JObj kvs) n = Inr json_data"
  shows "create_github_repository rt (JObj kvs) tr =
     (case try_bind (http rt tr (POST GITHUB_API_URL json_data (auth_headers rt)))
             (create_reply rt n) of
        Inr result \<Rightarrow> result
      | Inl e \<Rightarrow> error_content (cross_mark @ '' Error creating repository: '' @ exn_str e),
      tr @ [POST GITHUB_API_URL json_data (auth_headers rt)])"
  using assms
  by (simp add: create_github_repository_def create_try_def py_get_JObj request_def
      split: sum.splits)

subsection \<open>The dispatcher\<close>

lemma message_tools_call:
  assumes "map_of kvs ''method'' = Some (JStr ''tools/call'')"
  shows "handle_message rt (JObj kvs) tr =
     handle_call_tool rt (JObj kvs) (case map_of kvs ''id'' of Some v \<Rightarrow> v | None \<Rightarrow> JNull) tr"
  using assms by (simp add: handle_message_def py_get_JObj)

lemma call_unknown_tool:
  assumes "py_get (JObj kvs) ''params'' (JObj []) = Inr (JObj ps)"
    and "tool = (case map_of ps ''name'' of Some v \<Rightarrow> v | None \<Rightarrow> JNull)"
    and "tool \<noteq> JStr ''create_github_repository''"
    and "tool \<noteq> JStr ''delete_github_repository''"
  shows "handle_call_tool rt (JObj kvs) msg_id tr =
     (Inr (JObj [(''jsonrpc'', JStr ''2.0''),
                 (''id'', msg_id),
                 (''error'', JObj [(''code'', JInt (- 32601)),
                                   (''message'', JStr (''Unknown tool: '' @ py_str rt tool))])]),
      tr)"
  using assms by (simp add: handle_call_tool_def py_get_JObj)

lemma arguments_default:
  assumes "map_of kvs ''params'' = Some (JObj ps)" and "map_of ps ''arguments'' = None"
  shows "handle_call_tool rt (JObj kvs) msg_id tr =
         handle_call_tool rt
           (JObj ((''params'', JObj ((''arguments'', JObj []) # ps)) # kvs)) msg_id tr"
  using assms by (simp add: handle_call_tool_def py_get_JObj)




lemma handle_call_tool_shape:
  "handle_call_tool rt message msg_id tr = (Inr resp, tr') \<Longrightarrow>
   has_key resp ''result'' \<noteq> has_key resp ''error''"
  by (auto simp add: handle_call_tool_def has_key_def
      split: sum.splits prod.splits if_splits)

lemma handle_message_shape:
  "handle_message rt message tr = (Inr resp, tr') \<Longrightarrow>
   has_key resp ''result'' \<noteq> has_key resp ''error''"
  by (auto simp add: handle_message_def handle_initialize_def handle_list_tools_def has_key_def
      dest: handle_call_tool_shape split: sum.splits prod.splits if_splits)

lemma handle_call_tool_code:
  "handle_call_tool rt message msg_id tr = (Inr resp, tr') \<Longrightarrow>
   error_code resp = None \<or> error_code resp = Some (JInt (- 32601))"
  by (auto simp add: handle_call_tool_def error_code_of_error error_code_of_result
      split: sum.splits prod.splits if_splits)

lemma handle_message_code:
  "handle_message rt message tr = (Inr resp, tr') \<Longrightarrow>
   error_code resp = None \<or> error_code resp = Some (JInt (- 32601))"
  by (auto simp add: handle_message_def handle_initialize_def handle_list_tools_def
      error_code_of_error error_code_of_result
      dest: handle_call_tool_code split: sum.splits prod.splits if_splits)

subsection \<open>The transport loop\<close>

lemma main_step:
  "line \<noteq> [] \<Longrightarrow>
   main rt (line # stdin) tr =
     (fst (serve_line rt line tr) # fst (main rt stdin (snd (serve_line rt line tr))),
      snd (main rt stdin (snd (serve_line rt line tr))))"
  by (simp split: prod.splits)

text \<open>The loop ends at the end of the stream only: one Response for each line.\<close>

lemma main_length:
  "[] \<notin> set stdin \<Longrightarrow> length (fst (main rt stdin tr)) = length stdin"
proof (induction stdin arbitrary: tr)
  case Nil
  then show ?case by simp
next
  case (Cons line stdin)
  then have "line \<noteq> []" and "[] \<notin> set stdin" by auto
  then show ?case
    using Cons.IH by (simp add: main_step del: main.simps)
qed

lemma main_all:
  assumes "\<And>line tr. P (fst (serve_line rt line tr))"
  shows "list_all P (fst (main rt stdin tr))"
proof (induction stdin arbitrary: tr)
  case Nil
  then show ?case by simp
next
  case (Cons line stdin)
  show ?case
  proof (cases "line = []")
    case True
    then show ?thesis by simp
  next
    case False
    then show ?thesis
      using assms [of line tr] Cons.IH by (simp add: main_step del: main.simps)
  qed
qed

lemma serve_line_parse_error:
  "loads_stripped rt line = Inl (JSONDecodeError m) \<Longrightarrow>
   serve_line rt line tr = (parse_error_response m, tr)"
  by (simp add: serve_line_def)

lemma serve_line_shape:
  "has_key (fst (serve_line rt line tr)) ''result''
     \<noteq> has_key (fst (serve_line rt line tr)) ''error''"
proof (cases "loads_stripped rt line")
  case (Inl e)
  then show ?thesis
    by (cases e) (simp_all add: serve_line_def error_responses_shape)
next
  case (Inr message)
  obtain r tr' where hm: "handle_message rt message tr = (r, tr')"
    by (cases "handle_message rt message tr")
  show ?thesis
  proof (cases r)
    case (Inl e)
    with Inr hm show ?thesis
      by (cases e) (simp_all add: serve_line_def error_responses_shape)
  next
    case (Inr resp)
    with hm have "has_key resp ''result'' \<noteq> has_key resp ''error''"
      by (simp add: handle_message_shape)
    with \<open>loads_stripped rt line = Inr message\<close> hm Inr show ?thesis
      by (simp add: serve_line_def)
  qed
qed

lemma serve_line_code:
  "error_code (fst (serve_line rt line tr)) \<noteq> Some (JInt (- 32602))"
proof (cases "loads_stripped rt line")
  case (Inl e)
  then show ?thesis
    by (cases e) (simp_all add: serve_line_def error_responses_code)
next
  case (Inr message)
  obtain r tr' where hm: "handle_message rt message tr = (r, tr')"
    by (cases "handle_message rt message tr")
  show ?thesis
  proof (cases r)
    case (Inl e)
    with Inr hm show ?thesis
      by (cases e) (simp_all add: serve_line_def error_responses_code)
  next
    case (Inr resp)
    with hm have "error_code resp = None \<or> error_code resp = Some (JInt (- 32601))"
      by (simp add: handle_message_code)
    with \<open>loads_stripped rt line = Inr message\<close> hm Inr show ?thesis
      by (auto simp add: serve_line_def)
  qed
qed

section \<open>The claims\<close>

lemmas run_defs = create_github_repository_def create_try_def delete_github_repository_def
  delete_try_def create_reply_def delete_reply_def create_payload_def request_def
  py_get_def has_key_def auth_headers_def GITHUB_API_URL_def no_attribute_get_def
  handle_message_def handle_call_tool_def serve_line_def
  parse_error_response_def internal_error_response_def
  show_int_def show_nat.simps digit_char_def py_str_def

subsection \<open>C1: the identifier of a request comes back\<close>




subsection \<open>C2: deletion stops when the user lookup fails\<close>

text \<open>
  C2, as amended. When \<^verbatim>\<open>delete_github_repository\<close> is given a dict with a truthy \<^verbatim>\<open>name\<close>
  and the user lookup answers with a status other than 200, the Tool Result has
  \<^verbatim>\<open>isError\<close> true and its text is the cross mark, a space and
  \<^verbatim>\<open>Failed to get user info: <code>\<close>; the lookup is the only call made, so the deletion
  endpoint is not called.
\<close>

theorem delete_lookup_failure:
  assumes "map_of kvs ''name'' = Some n" and "truthy n"
    and "http rt tr (GET ''https://api.github.com/user'' (auth_headers rt)) = Inr user_response"
    and "status_code user_response \<noteq> 200"
  shows "delete_github_repository rt (JObj kvs) tr =
           (error_content
              (cross_mark @ '' Failed to get user info: '' @ show_int (status_code user_response)),
            tr @ [GET ''https://api.github.com/user'' (auth_headers rt)])
         \<and> field (fst (delete_github_repository rt (JObj kvs) tr)) ''isError'' = Some (JBool True)
         \<and> filter is_delete (snd (delete_github_repository rt (JObj kvs) tr))
             = filter is_delete tr"
proof -
  have run: "delete_github_repository rt (JObj kvs) tr =
           (error_content
              (cross_mark @ '' Failed to get user info: '' @ show_int (status_code user_response)),
            tr @ [GET ''https://api.github.com/user'' (auth_headers rt)])"
    using assms
    by (simp add: delete_github_repository_def delete_try_def py_get_JObj request_def)
  show ?thesis
    unfolding run by (simp add: isError_error_content)
qed

theorem delete_lookup_failure_witness:
  "map_of [(''name'', JStr ''demo'')] ''name'' = Some (JStr ''demo'')
   \<and> truthy (JStr ''demo'')
   \<and> http (stub demo_loads api_unauthorized) []
        (GET ''https://api.github.com/user'' (auth_headers (stub demo_loads api_unauthorized)))
       = Inr \<lparr>status_code = 401, json_body = Inr (JObj [(''message'', JStr ''Bad credentials'')])\<rparr>
   \<and> delete_github_repository (stub demo_loads api_unauthorized)
        (JObj [(''name'', JStr ''demo'')]) []
       = (error_content (cross_mark @ '' Failed to get user info: 401''),
          [GET ''https://api.github.com/user''
             [(''Authorization'', ''token secret''),
              (''Accept'', ''application/vnd.github+json'')]])"
proof -
  let ?rt = "stub demo_loads api_unauthorized"
  let ?resp = "\<lparr>status_code = 401,
                 json_body = Inr (JObj [(''message'', JStr ''Bad credentials'')])\<rparr>"
  have h1: "map_of [(''name'', JStr ''demo'')] ''name'' = Some (JStr ''demo'')"
    by simp
  have h2: "truthy (JStr ''demo'')"
    by simp
  have h3: "http ?rt [] (GET ''https://api.github.com/user'' (auth_headers ?rt)) = Inr ?resp"
    by (simp add: stub_def api_unauthorized_def)
  have h4: "status_code ?resp \<noteq> 200"
    by simp
  from delete_lookup_failure [OF h1 h2 h3 h4] h1 h2 h3 show ?thesis
    by (simp add: stub_def api_unauthorized_def run_defs)
qed

text \<open>
  The claim as stated fails on the text: with a lookup answered 401, the text is not
  \<^verbatim>\<open>Failed to get user info: 401\<close> but that string after the cross mark and a space.
\<close>

theorem delete_lookup_failure_counterexample:
  "result_text (fst (delete_github_repository (stub demo_loads api_unauthorized)
                       (JObj [(''name'', JStr ''demo'')]) []))
     = Some (cross_mark @ '' Failed to get user info: 401'')
   \<and> result_text (fst (delete_github_repository (stub demo_loads api_unauthorized)
                       (JObj [(''name'', JStr ''demo'')]) []))
     \<noteq> Some ''Failed to get user info: 401''"
  by (simp add: stub_def api_unauthorized_def run_defs result_text_error_content cross_mark_def)

subsection \<open>C3: creation without a name\<close>

text \<open>
  C3, as amended. When \<^verbatim>\<open>create_github_repository\<close> is given a dict whose \<^verbatim>\<open>name\<close> is
  absent or the empty string, the Tool Result has \<^verbatim>\<open>isError\<close> true and the text
  \<^verbatim>\<open>Error: Repository name is required\<close>, and no external call is made: the trace of
  calls comes back as it was given, whatever the hosting API would answer.
\<close>

theorem create_without_name:
  assumes "map_of kvs ''name'' = None \<or> map_of kvs ''name'' = Some (JStr [])"
  shows "create_github_repository rt (JObj kvs) tr =
           (error_content ''Error: Repository name is required'', tr)
         \<and> result_text (fst (create_github_repository rt (JObj kvs) tr)) =
             Some ''Error: Repository name is required''
         \<and> field (fst (create_github_repository rt (JObj kvs) tr)) ''isError'' = Some (JBool True)
         \<and> snd (create_github_repository rt (JObj kvs) tr) = tr"
proof -
  from assms have "\<not> truthy (case map_of kvs ''name'' of Some v \<Rightarrow> v | None \<Rightarrow> JNull)"
    by auto
  then have "create_github_repository rt (JObj kvs) tr =
      (error_content ''Error: Repository name is required'', tr)"
    by (rule create_falsy_name)
  then show ?thesis
    by (simp add: result_text_error_content isError_error_content)
qed

theorem create_without_name_witness:
  "map_of [(''private'', JBool True), (''name'', JStr [])] ''name'' = Some (JStr [])
   \<and> create_github_repository (stub demo_loads unreachable_api)
        (JObj [(''private'', JBool True), (''name'', JStr [])]) [] =
       (error_content ''Error: Repository name is required'', [])
   \<and> map_of ([] :: (string \<times> json) list) ''name'' = None
   \<and> create_github_repository (stub demo_loads unreachable_api) (JObj []) [] =
       (error_content ''Error: Repository name is required'', [])"
proof -
  have h1: "map_of [(''private'', JBool True), (''name'', JStr [])] ''name'' = Some (JStr [])"
    by simp
  have h2: "map_of ([] :: (string \<times> json) list) ''name'' = None"
    by simp
  from create_without_name [OF disjI2, OF h1] create_without_name [OF disjI1, OF h2] h1 h2
  show ?thesis by blast
qed

text \<open>
  The claim as stated fails on the text: for empty arguments the text is
  \<^verbatim>\<open>Error: Repository name is required\<close>, not \<^verbatim>\<open>Repository name is required\<close>.
\<close>

theorem create_without_name_counterexample:
  "result_text (fst (create_github_repository (stub demo_loads unreachable_api) (JObj []) []))
     = Some ''Error: Repository name is required''
   \<and> result_text (fst (create_github_repository (stub demo_loads unreachable_api) (JObj []) []))
     \<noteq> Some ''Repository name is required''"
  by (simp add: create_github_repository_def create_try_def py_get_JObj
      result_text_error_content)

subsection \<open>C4: an unregistered tool is a protocol error\<close>

text \<open>
  C4. For every \<^verbatim>\<open>tools/call\<close> request whose \<^verbatim>\<open>params\<close> name a tool other than the two
  registered ones, the Response is the protocol error with code -32601 and the message
  \<^verbatim>\<open>Unknown tool: \<close> followed by the tool name, so the message contains the name
  (for a name that is a str, \<^verbatim>\<open>str\<close> of it is the name itself); the Response has no
  \<^verbatim>\<open>result\<close>, so it is not a Tool Result envelope, and no external call is made.
\<close>

theorem unknown_tool_is_protocol_error:
  assumes "map_of kvs ''method'' = Some (JStr ''tools/call'')"
    and "map_of kvs ''params'' = Some (JObj ps)"
    and "map_of ps ''name'' = Some tool"
    and "tool \<noteq> JStr ''create_github_repository''"
    and "tool \<noteq> JStr ''delete_github_repository''"
  shows "handle_message rt (JObj kvs) tr =
           (Inr (JObj [(''jsonrpc'', JStr ''2.0''),
                       (''id'', case map_of kvs ''id'' of Some v \<Rightarrow> v | None \<Rightarrow> JNull),
                       (''error'', JObj [(''code'', JInt (- 32601)),
                                         (''message'',
                                          JStr (''Unknown tool: '' @ py_str rt tool))])]),
            tr)
         \<and> sublist (py_str rt tool) (''Unknown tool: '' @ py_str rt tool)
         \<and> py_str rt (JStr s) = s
         \<and> (\<exists>resp. fst (handle_message rt (JObj kvs) tr) = Inr resp
                \<and> error_code resp = Some (JInt (- 32601))
                \<and> error_message resp = Some (JStr (''Unknown tool: '' @ py_str rt tool))
                \<and> \<not> has_key resp ''result'')"
proof -
  have run: "handle_message rt (JObj kvs) tr =
           (Inr (JObj [(''jsonrpc'', JStr ''2.0''),
                       (''id'', case map_of kvs ''id'' of Some v \<Rightarrow> v | None \<Rightarrow> JNull),
                       (''error'', JObj [(''code'', JInt (- 32601)),
                                         (''message'',
                                          JStr (''Unknown tool: '' @ py_str rt tool))])]),
            tr)"
    unfolding message_tools_call [OF assms(1)]
    by (rule call_unknown_tool [where ps = ps]) (use assms in \<open>simp_all add: py_get_JObj\<close>)
  have "sublist (py_str rt tool) (''Unknown tool: '' @ py_str rt tool @ [])"
    by (rule sublist_appendI)
  then have sub: "sublist (py_str rt tool) (''Unknown tool: '' @ py_str rt tool)"
    by simp
  show ?thesis
    unfolding run using sub
    by (simp add: py_str_def error_code_def error_message_def field_def has_key_def)
qed

theorem unknown_tool_is_protocol_error_witness:
  "JStr ''rename_repository'' \<noteq> JStr ''create_github_repository''
   \<and> JStr ''rename_repository'' \<noteq> JStr ''delete_github_repository''
   \<and> handle_message (stub demo_loads unreachable_api)
        (JObj [(''jsonrpc'', JStr ''2.0''), (''id'', JInt 3), (''method'', JStr ''tools/call''),
               (''params'', JObj [(''name'', JStr ''rename_repository''),
                                  (''arguments'', JObj [(''name'', JStr ''demo'')])])]) []
       = (Inr (JObj [(''jsonrpc'', JStr ''2.0''),
                     (''id'', JInt 3),
                     (''error'', JObj [(''code'', JInt (- 32601)),
                                       (''message'', JStr ''Unknown tool: rename_repository'')])]),
          [])"
proof -
  let ?ps = "[(''name'', JStr ''rename_repository''),
              (''arguments'', JObj [(''name'', JStr ''demo'')])]"
  let ?kvs = "[(''jsonrpc'', JStr ''2.0''), (''id'', JInt 3), (''method'', JStr ''tools/call''),
               (''params'', JObj ?ps)]"
  have h1: "map_of ?kvs ''method'' = Some (JStr ''tools/call'')" by simp
  have h2: "map_of ?kvs ''params'' = Some (JObj ?ps)" by simp
  have h3: "map_of ?ps ''name'' = Some (JStr ''rename_repository'')" by simp
  have h4: "JStr ''rename_repository'' \<noteq> JStr ''create_github_repository''" by simp
  have h5: "JStr ''rename_repository'' \<noteq> JStr ''delete_github_repository''" by simp
  from unknown_tool_is_protocol_error [OF h1 h2 h3 h4 h5, of "stub demo_loads unreachable_api" "[]"]
    h4 h5
  show ?thesis by (simp add: py_str_def)
qed

subsection \<open>C5: a created repository\<close>

text \<open>
  C5. For every \<^verbatim>\<open>create_github_repository\<close> invocation with a valid (truthy) name where
  the creation call returns HTTP 201 with a body carrying \<^verbatim>\<open>html_url\<close> and \<^verbatim>\<open>clone_url\<close>,
  the text of the Tool Result contains both URLs as taken from the body, and the result
  has no \<^verbatim>\<open>isError\<close> entry. Exactly one call is made, the creation request.
\<close>

theorem create_success:
  assumes "map_of kvs ''name'' = Some n" and "truthy n"
    and "create_payload (JObj kvs) n = Inr json_data"
    and "http rt tr (POST GITHUB_API_URL json_data (auth_headers rt)) = Inr resp"
    and "status_code resp = 201"
    and "json_body resp = Inr (JObj body)"
    and "map_of body ''html_url'' = Some html_url"
    and "map_of body ''clone_url'' = Some clone_url"
  shows "create_github_repository rt (JObj kvs) tr =
           (text_content
              (check_mark @ '' Successfully created GitHub repository '' @ apostrophe
               @ py_str rt n @ apostrophe @ ''!'' @ newline @ newline
               @ ''Repository URL: '' @ py_str rt html_url @ newline
               @ ''Clone URL: '' @ py_str rt clone_url),
            tr @ [POST GITHUB_API_URL json_data (auth_headers rt)])
         \<and> (\<exists>t. result_text (fst (create_github_repository rt (JObj kvs) tr)) = Some t
                \<and> sublist (py_str rt html_url) t \<and> sublist (py_str rt clone_url) t)
         \<and> \<not> has_key (fst (create_github_repository rt (JObj kvs) tr)) ''isError''"
proof -
  let ?head = "check_mark @ '' Successfully created GitHub repository '' @ apostrophe
               @ py_str rt n @ apostrophe @ ''!'' @ newline @ newline @ ''Repository URL: ''"
  let ?mid = "newline @ ''Clone URL: ''"
  let ?t = "?head @ py_str rt html_url @ ?mid @ py_str rt clone_url"
  have run: "create_github_repository rt (JObj kvs) tr =
      (text_content ?t, tr @ [POST GITHUB_API_URL json_data (auth_headers rt)])"
    using assms(4-8)
    by (simp add: create_truthy_name [OF assms(1-3)] create_reply_def py_get_JObj)
  have "sublist (py_str rt html_url) (?head @ py_str rt html_url @ (?mid @ py_str rt clone_url))"
    by (rule sublist_appendI)
  then have s1: "sublist (py_str rt html_url) ?t" by simp
  have "sublist (py_str rt clone_url)
          ((?head @ py_str rt html_url @ ?mid) @ py_str rt clone_url @ [])"
    by (rule sublist_appendI)
  then have s2: "sublist (py_str rt clone_url) ?t" by simp
  show ?thesis
    using run s1 s2 by (simp add: result_text_text_content isError_text_content)
qed

theorem create_success_witness:
  "truthy (JStr ''demo'')
   \<and> create_payload (JObj [(''name'', JStr ''demo''), (''description'', JStr ''A demo'')])
        (JStr ''demo'')
       = Inr (JObj [(''name'', JStr ''demo''), (''private'', JBool False),
                    (''auto_init'', JBool True), (''description'', JStr ''A demo'')])
   \<and> create_github_repository (stub demo_loads api_created)
        (JObj [(''name'', JStr ''demo''), (''description'', JStr ''A demo'')]) []
       = (text_content
            (check_mark @ '' Successfully created GitHub repository '' @ apostrophe @ ''demo''
             @ apostrophe @ ''!'' @ newline @ newline
             @ ''Repository URL: https://github.com/octocat/demo'' @ newline
             @ ''Clone URL: https://github.com/octocat/demo.git''),
          [POST ''https://api.github.com/user/repos''
             (JObj [(''name'', JStr ''demo''), (''private'', JBool False),
                    (''auto_init'', JBool True), (''description'', JStr ''A demo'')])
             [(''Authorization'', ''token secret''),
              (''Accept'', ''application/vnd.github+json'')]])"
proof -
  let ?rt = "stub demo_loads api_created"
  let ?kvs = "[(''name'', JStr ''demo''), (''description'', JStr ''A demo'')]"
  let ?data = "JObj [(''name'', JStr ''demo''), (''private'', JBool False),
                     (''auto_init'', JBool True), (''description'', JStr ''A demo'')]"
  let ?body = "[(''id'', JInt 1296269),
                (''html_url'', JStr ''https://github.com/octocat/demo''),
                (''clone_url'', JStr ''https://github.com/octocat/demo.git'')]"
  let ?resp = "\<lparr>status_code = 201, json_body = Inr (JObj ?body)\<rparr>"
  have h1: "map_of ?kvs ''name'' = Some (JStr ''demo'')" by simp
  have h2: "truthy (JStr ''demo'')" by simp
  have h3: "create_payload (JObj ?kvs) (JStr ''demo'') = Inr ?data"
    by (simp add: create_payload_dict)
  have h4: "http ?rt [] (POST GITHUB_API_URL ?data (auth_headers ?rt)) = Inr ?resp"
    by (simp add: stub_def api_created_def)
  have h5: "status_code ?resp = 201" by simp
  have h6: "json_body ?resp = Inr (JObj ?body)" by simp
  have h7: "map_of ?body ''html_url'' = Some (JStr ''https://github.com/octocat/demo'')"
    by simp
  have h8: "map_of ?body ''clone_url'' = Some (JStr ''https://github.com/octocat/demo.git'')"
    by simp
  from create_success [OF h1 h2 h3 h4 h5 h6 h7 h8] h2 h3 show ?thesis
    by (simp add: py_str_def GITHUB_API_URL_def auth_headers_def stub_def)
qed

subsection \<open>C6: a creation call that fails\<close>

text \<open>
  C6, as amended. For every \<^verbatim>\<open>create_github_repository\<close> invocation with a truthy name
  where the creation call returns a status other than 201, the Tool Result has
  \<^verbatim>\<open>isError\<close> true. When the body decodes to a dict, the text is the cross mark, then
  \<^verbatim>\<open> Failed to create repository: <message> (Status: <code>)\<close>, where the message is
  \<^verbatim>\<open>str\<close> of the body's \<^verbatim>\<open>message\<close> entry, or \<^verbatim>\<open>Unknown error\<close> when the entry is
  absent. When the body does not decode, or decodes to something other than a dict, the
  text is the cross mark, then \<^verbatim>\<open> Error creating repository: \<close> and the description of
  the exception, with no status in it.
\<close>

theorem create_failure:
  assumes "map_of kvs ''name'' = Some n" and "truthy n"
    and "create_payload (JObj kvs) n = Inr json_data"
    and "http rt tr (POST GITHUB_API_URL json_data (auth_headers rt)) = Inr resp"
    and "status_code resp \<noteq> 201"
  shows "create_github_repository rt (JObj kvs) tr =
           (error_content
              (case json_body resp of
                 Inr (JObj body) \<Rightarrow>
                   cross_mark @ '' Failed to create repository: ''
                   @ py_str rt (case map_of body ''message'' of
                                  Some msg \<Rightarrow> msg | None \<Rightarrow> JStr ''Unknown error'')
                   @ '' (Status: '' @ show_int (status_code resp) @ '')''
               | Inr v \<Rightarrow>
                   cross_mark @ '' Error creating repository: '' @ exn_str (no_attribute_get v)
               | Inl e \<Rightarrow>
                   cross_mark @ '' Error creating repository: '' @ exn_str e),
            tr @ [POST GITHUB_API_URL json_data (auth_headers rt)])
         \<and> field (fst (create_github_repository rt (JObj kvs) tr)) ''isError'' = Some (JBool True)"
proof -
  have run: "create_github_repository rt (JObj kvs) tr =
           (error_content
              (case json_body resp of
                 Inr (JObj body) \<Rightarrow>
                   cross_mark @ '' Failed to create repository: ''
                   @ py_str rt (case map_of body ''message'' of
                                  Some msg \<Rightarrow> msg | None \<Rightarrow> JStr ''Unknown error'')
                   @ '' (Status: '' @ show_int (status_code resp) @ '')''
               | Inr v \<Rightarrow>
                   cross_mark @ '' Error creating repository: '' @ exn_str (no_attribute_get v)
               | Inl e \<Rightarrow>
                   cross_mark @ '' Error creating repository: '' @ exn_str e),
            tr @ [POST GITHUB_API_URL json_data (auth_headers rt)])"
    using assms(4,5)
    by (simp add: create_truthy_name [OF assms(1-3)] create_reply_def py_get_def
        split: sum.splits json.splits)
  show ?thesis
    unfolding run by (simp add: isError_error_content)
qed

theorem create_failure_witness:
  "truthy (JStr ''demo'')
   \<and> (422 :: int) \<noteq> 201
   \<and> result_text (fst (create_github_repository (stub demo_loads api_unprocessable)
                         (JObj [(''name'', JStr ''demo'')]) []))
       = Some (cross_mark
               @ '' Failed to create repository: Repository creation failed. (Status: 422)'')
   \<and> field (fst (create_github_repository (stub demo_loads api_unprocessable)
                   (JObj [(''name'', JStr ''demo'')]) [])) ''isError''
       = Some (JBool True)
   \<and> (502 :: int) \<noteq> 201
   \<and> result_text (fst (create_github_repository (stub demo_loads api_bad_gateway)
                         (JObj [(''name'', JStr ''demo'')]) []))
       = Some (cross_mark
               @ '' Error creating repository: Expecting value: line 1 column 1 (char 0)'')
   \<and> field (fst (create_github_repository (stub demo_loads api_bad_gateway)
                   (JObj [(''name'', JStr ''demo'')]) [])) ''isError''
       = Some (JBool True)"
proof -
  let ?rt = "stub demo_loads api_unprocessable"
  let ?rt' = "stub demo_loads api_bad_gateway"
  let ?kvs = "[(''name'', JStr ''demo'')]"
  let ?data = "JObj [(''name'', JStr ''demo''), (''private'', JBool False),
                     (''auto_init'', JBool True)]"
  let ?resp = "\<lparr>status_code = 422,
                 json_body = Inr (JObj [(''message'', JStr ''Repository creation failed.'')])\<rparr>"
  let ?resp' = "\<lparr>status_code = 502,
                  json_body = Inl (JSONDecodeError ''Expecting value: line 1 column 1 (char 0)'')\<rparr>"
  have h1: "map_of ?kvs ''name'' = Some (JStr ''demo'')" by simp
  have h2: "truthy (JStr ''demo'')" by simp
  have h3: "create_payload (JObj ?kvs) (JStr ''demo'') = Inr ?data"
    by (simp add: create_payload_dict)
  have h4: "http ?rt [] (POST GITHUB_API_URL ?data (auth_headers ?rt)) = Inr ?resp"
    by (simp add: stub_def api_unprocessable_def)
  have h5: "status_code ?resp \<noteq> 201" by simp
  have k4: "http ?rt' [] (POST GITHUB_API_URL ?data (auth_headers ?rt')) = Inr ?resp'"
    by (simp add: stub_def api_bad_gateway_def)
  have k5: "status_code ?resp' \<noteq> 201" by simp
  have first: "result_text (fst (create_github_repository ?rt (JObj ?kvs) []))
        = Some (cross_mark
                @ '' Failed to create repository: Repository creation failed. (Status: 422)'')
      \<and> field (fst (create_github_repository ?rt (JObj ?kvs) [])) ''isError''
        = Some (JBool True)"
    using create_failure [OF h1 h2 h3 h4 h5]
    by (simp add: py_str_def result_text_error_content isError_error_content
        show_int_def show_nat.simps digit_char_def)
  have second: "result_text (fst (create_github_repository ?rt' (JObj ?kvs) []))
        = Some (cross_mark
                @ '' Error creating repository: Expecting value: line 1 column 1 (char 0)'')
      \<and> field (fst (create_github_repository ?rt' (JObj ?kvs) [])) ''isError''
        = Some (JBool True)"
    using create_failure [OF h1 h2 h3 k4 k5]
    by (simp add: result_text_error_content isError_error_content)
  from h2 first second show ?thesis
    by simp
qed

text \<open>
  The claim as stated fails at a 502 whose body is not JSON: the text is the description
  of the decoding exception; it holds neither \<^verbatim>\<open>Unknown error\<close> nor
  \<^verbatim>\<open>(Status: 502)\<close>.
\<close>

theorem create_failure_counterexample:
  "result_text (fst (create_github_repository (stub demo_loads api_bad_gateway)
                       (JObj [(''name'', JStr ''demo'')]) []))
     = Some (cross_mark
             @ '' Error creating repository: Expecting value: line 1 column 1 (char 0)'')
   \<and> \<not> sublist ''Unknown error''
         (cross_mark
          @ '' Error creating repository: Expecting value: line 1 column 1 (char 0)'')
   \<and> \<not> sublist ''(Status: 502)''
         (cross_mark
          @ '' Error creating repository: Expecting value: line 1 column 1 (char 0)'')"
  by (simp add: stub_def api_bad_gateway_def run_defs result_text_error_content cross_mark_def
      sublist_Cons_right prefix_code)


subsection \<open>C7: a line that does not decode\<close>

lemma serve_line_decode_error:
  "loads_stripped rt line = Inl e \<Longrightarrow>
   serve_line rt line tr =
     (case e of
        JSONDecodeError m \<Rightarrow> parse_error_response m
      | _ \<Rightarrow> internal_error_response (exn_str e),
      tr)"
  by (cases e) (simp_all add: serve_line_def)

text \<open>
  C7, as amended. For every input line whose decoding raises, the loop prints exactly
  one error Response, which carries no \<^verbatim>\<open>id\<close>, makes no external call, and goes on with
  the lines that follow. The code of that Response is -32700 when the exception is a
  \<^verbatim>\<open>JSONDecodeError\<close>; when decoding raises any other exception (the recursion limit on
  deep nesting, the digit limit on a long integer) it is -32603, the internal error. The
  loop does not stop at such a line: it ends at the end of the stream only, so with the
  line in front it prints one Response more than there are lines after it.
\<close>

theorem undecodable_line_error:
  assumes "loads_stripped rt line = Inl e" and "line \<noteq> []"
  shows "main rt (line # stdin) tr =
           ((case e of
               JSONDecodeError m \<Rightarrow> parse_error_response m
             | _ \<Rightarrow> internal_error_response (exn_str e))
            # fst (main rt stdin tr),
            snd (main rt stdin tr))
         \<and> error_code (case e of
                         JSONDecodeError m \<Rightarrow> parse_error_response m
                       | _ \<Rightarrow> internal_error_response (exn_str e))
             = Some (JInt (case e of JSONDecodeError m \<Rightarrow> - 32700 | _ \<Rightarrow> - 32603))
         \<and> \<not> has_key (case e of
                          JSONDecodeError m \<Rightarrow> parse_error_response m
                        | _ \<Rightarrow> internal_error_response (exn_str e)) ''id''
         \<and> ([] \<notin> set stdin \<longrightarrow> length (fst (main rt (line # stdin) tr)) = Suc (length stdin))"
proof -
  let ?resp = "case e of
                 JSONDecodeError m \<Rightarrow> parse_error_response m
               | _ \<Rightarrow> internal_error_response (exn_str e)"
  have step: "main rt (line # stdin) tr = (?resp # fst (main rt stdin tr), snd (main rt stdin tr))"
    using assms(2) by (simp add: serve_line_decode_error [OF assms(1)] split: prod.splits)
  have code: "error_code ?resp
      = Some (JInt (case e of JSONDecodeError m \<Rightarrow> - 32700 | _ \<Rightarrow> - 32603))"
    by (cases e) (simp_all add: error_responses_code)
  have noid: "\<not> has_key ?resp ''id''"
    by (cases e)
      (simp_all add: parse_error_response_def internal_error_response_def has_key_def)
  have len: "[] \<notin> set stdin \<longrightarrow> length (fst (main rt (line # stdin) tr)) = Suc (length stdin)"
    unfolding step by (simp add: main_length)
  from step code noid len show ?thesis by blast
qed

text \<open>
  The theorem on two streams of two lines. In the first the line in front is not JSON:
  a parse error, then the answer to the second line. In the second the line in front is
  the thousand brackets: an internal error, then the answer to the second line.
\<close>

theorem undecodable_line_error_witness:
  "loads_stripped (stub demo_loads unreachable_api) line_malformed
     = Inl (JSONDecodeError ''Expecting value: line 1 column 1 (char 0)'')
   \<and> line_malformed \<noteq> []
   \<and> [] \<notin> set [line_unknown_method]
   \<and> length (fst (main (stub demo_loads unreachable_api)
                     [line_malformed, line_unknown_method] [])) = 2
   \<and> main (stub demo_loads unreachable_api) [line_malformed, line_unknown_method] [] =
       ([JObj [(''jsonrpc'', JStr ''2.0''),
               (''error'', JObj [(''code'', JInt (- 32700)),
                                 (''message'',
                                  JStr ''Parse error: Expecting value: line 1 column 1 (char 0)'')])],
         JObj [(''jsonrpc'', JStr ''2.0''),
               (''id'', JStr ''abc''),
               (''error'', JObj [(''code'', JInt (- 32601)),
                                 (''message'', JStr ''Method not found: resources/list'')])]],
        [])
   \<and> loads_stripped (stub deep_loads unreachable_api) line_deep_nesting
       = Inl (OtherException
          ''maximum recursion depth exceeded while decoding a JSON array from a unicode string'')
   \<and> line_deep_nesting \<noteq> []
   \<and> map error_code (fst (main (stub deep_loads unreachable_api)
                             [line_deep_nesting, line_unknown_method] []))
       = [Some (JInt (- 32603)), Some (JInt (- 32601))]"
proof -
  let ?rt = "stub demo_loads unreachable_api"
  let ?rt' = "stub deep_loads unreachable_api"
  let ?answer = "JObj [(''jsonrpc'', JStr ''2.0''),
                       (''id'', JStr ''abc''),
                       (''error'', JObj [(''code'', JInt (- 32601)),
                                         (''message'', JStr ''Method not found: resources/list'')])]"
  have h1: "loads_stripped ?rt line_malformed
      = Inl (JSONDecodeError ''Expecting value: line 1 column 1 (char 0)'')"
    by (simp add: stub_def demo_loads_def line_malformed_def line_unknown_method_def
        line_params_list_def)
  have h2: "line_malformed \<noteq> []"
    by (simp add: line_malformed_def)
  have h3: "[] \<notin> set [line_unknown_method]"
    by (simp add: line_unknown_method_def)
  have rest: "main ?rt [line_unknown_method] [] = ([?answer], [])"
    using h3 by (simp add: stub_def demo_loads_def request_unknown_method_def run_defs)
  have first: "length (fst (main ?rt [line_malformed, line_unknown_method] [])) = 2
      \<and> main ?rt [line_malformed, line_unknown_method] [] =
          ([parse_error_response ''Expecting value: line 1 column 1 (char 0)'', ?answer], [])"
    using undecodable_line_error [OF h1 h2, of "[line_unknown_method]" "[]"] h3 rest
    by simp
  have k1: "loads_stripped ?rt' line_deep_nesting
      = Inl (OtherException
         ''maximum recursion depth exceeded while decoding a JSON array from a unicode string'')"
    by (simp add: stub_def deep_loads_def)
  have k2: "line_deep_nesting \<noteq> []"
    by (simp add: line_deep_nesting_def)
  have differ: "line_unknown_method \<noteq> line_deep_nesting"
  proof
    assume "line_unknown_method = line_deep_nesting"
    then have "hd line_unknown_method = hd line_deep_nesting" by simp
    then show False
      by (simp add: line_unknown_method_def line_deep_nesting_def hd_replicate)
  qed
  have rest': "main ?rt' [line_unknown_method] [] = ([?answer], [])"
    using differ h3 by (simp add: stub_def deep_loads_def demo_loads_def
        request_unknown_method_def run_defs)
  have second: "map error_code (fst (main ?rt' [line_deep_nesting, line_unknown_method] []))
      = [Some (JInt (- 32603)), Some (JInt (- 32601))]"
    using undecodable_line_error [OF k1 k2, of "[line_unknown_method]" "[]"] h3 rest'
    by (simp add: error_responses_code error_code_of_error)
  from h1 h2 h3 first k1 k2 second show ?thesis
    by (simp add: parse_error_response_def)
qed

text \<open>
  The claim as stated fails at the line of a thousand opening brackets: the line does
  not decode as JSON, and the one Response printed for it has the code -32603, not
  -32700.
\<close>

theorem undecodable_line_counterexample:
  "loads_stripped (stub deep_loads unreachable_api) line_deep_nesting
     = Inl (OtherException
        ''maximum recursion depth exceeded while decoding a JSON array from a unicode string'')
   \<and> fst (main (stub deep_loads unreachable_api) [line_deep_nesting] [])
       = [internal_error_response
            ''maximum recursion depth exceeded while decoding a JSON array from a unicode string'']
   \<and> map error_code (fst (main (stub deep_loads unreachable_api) [line_deep_nesting] []))
       = [Some (JInt (- 32603))]
   \<and> map error_code (fst (main (stub deep_loads unreachable_api) [line_deep_nesting] []))
       \<noteq> [Some (JInt (- 32700))]"
proof -
  have nonempty: "line_deep_nesting \<noteq> []"
    by (simp add: line_deep_nesting_def)
  have run: "serve_line (stub deep_loads unreachable_api) line_deep_nesting [] =
      (internal_error_response
         ''maximum recursion depth exceeded while decoding a JSON array from a unicode string'',
       [])"
    by (simp add: serve_line_def stub_def deep_loads_def)
  from nonempty run show ?thesis
    by (simp add: stub_def deep_loads_def error_responses_code)
qed

subsection \<open>C8: a result or an error, never both\<close>

text \<open>
  C8. Every Response the system prints carries exactly one of \<^verbatim>\<open>result\<close> and \<^verbatim>\<open>error\<close>:
  this holds of the Response to any one line, whatever the decoder and the hosting API
  do, and so of every Response the loop prints for any stream.
\<close>

theorem result_xor_error:
  "has_key (fst (serve_line rt line tr)) ''result''
     \<noteq> has_key (fst (serve_line rt line tr)) ''error''
   \<and> list_all (\<lambda>resp. has_key resp ''result'' \<noteq> has_key resp ''error'')
        (fst (main rt stdin tr'))"
  using serve_line_shape main_all [of "\<lambda>resp. has_key resp ''result'' \<noteq> has_key resp ''error''"]
  by blast

subsection \<open>C9: the name is tested for truth\<close>

text \<open>
  C9. In both \<^verbatim>\<open>create_github_repository\<close> and \<^verbatim>\<open>delete_github_repository\<close> the name is
  tested with \<^verbatim>\<open>if not repo_name\<close>: for every arguments dict whose \<^verbatim>\<open>name\<close> is absent or
  any falsy value, the operation returns the name-required Tool Result with \<^verbatim>\<open>isError\<close>
  true and makes no external call. \<^verbatim>\<open>None\<close>, the empty string, \<^verbatim>\<open>False\<close> and \<^verbatim>\<open>0\<close> are
  falsy.
\<close>

theorem name_validation_by_truthiness:
  assumes "\<not> truthy (case map_of kvs ''name'' of Some v \<Rightarrow> v | None \<Rightarrow> JNull)"
  shows "create_github_repository rt (JObj kvs) tr =
           (error_content ''Error: Repository name is required'', tr)
         \<and> delete_github_repository rt (JObj kvs) tr =
           (error_content ''Error: Repository name is required'', tr)
         \<and> field (error_content ''Error: Repository name is required'') ''isError''
             = Some (JBool True)
         \<and> \<not> truthy JNull \<and> \<not> truthy (JStr []) \<and> \<not> truthy (JBool False) \<and> \<not> truthy (JInt 0)"
  using assms
  by (simp add: create_falsy_name delete_falsy_name isError_error_content)

text \<open>The theorem at an absent name and at the names \<^verbatim>\<open>null\<close>, \<^verbatim>\<open>""\<close>, \<^verbatim>\<open>false\<close> and \<^verbatim>\<open>0\<close>.\<close>

theorem name_validation_by_truthiness_witness:
  "list_all
     (\<lambda>kvs. create_github_repository (stub demo_loads unreachable_api) (JObj kvs) []
               = (error_content ''Error: Repository name is required'', [])
           \<and> delete_github_repository (stub demo_loads unreachable_api) (JObj kvs) []
               = (error_content ''Error: Repository name is required'', []))
     [[(''private'', JBool True)],
      [(''name'', JNull)],
      [(''name'', JStr [])],
      [(''name'', JBool False)],
      [(''name'', JInt 0)]]"
  using name_validation_by_truthiness [of "[(''private'', JBool True)]" _ "[]"]
    name_validation_by_truthiness [of "[(''name'', JNull)]" _ "[]"]
    name_validation_by_truthiness [of "[(''name'', JStr [])]" _ "[]"]
    name_validation_by_truthiness [of "[(''name'', JBool False)]" _ "[]"]
    name_validation_by_truthiness [of "[(''name'', JInt 0)]" _ "[]"]
  by simp

subsection \<open>C10: a call without params or without a tool name\<close>

text \<open>
  C10. For every \<^verbatim>\<open>tools/call\<close> request whose \<^verbatim>\<open>params\<close> are absent, or a dict without
  \<^verbatim>\<open>name\<close>, the dispatcher returns the unknown-tool error with code -32601 and the
  message \<^verbatim>\<open>Unknown tool: None\<close>. No Response the system prints has the code -32602.
  Absent \<^verbatim>\<open>arguments\<close> stand for the empty dict: the call is handled exactly as if
  \<^verbatim>\<open>"arguments": {}\<close> had been sent.
\<close>

theorem missing_tool_name:
  assumes "map_of kvs ''method'' = Some (JStr ''tools/call'')"
    and "map_of kvs ''params'' = None
         \<or> map_of kvs ''params'' = Some (JObj ps) \<and> map_of ps ''name'' = None"
  shows "handle_message rt (JObj kvs) tr =
           (Inr (JObj [(''jsonrpc'', JStr ''2.0''),
                       (''id'', case map_of kvs ''id'' of Some v \<Rightarrow> v | None \<Rightarrow> JNull),
                       (''error'', JObj [(''code'', JInt (- 32601)),
                                         (''message'', JStr ''Unknown tool: None'')])]),
            tr)
         \<and> error_code (fst (serve_line rt line tr')) \<noteq> Some (JInt (- 32602))
         \<and> list_all (\<lambda>resp. error_code resp \<noteq> Some (JInt (- 32602))) (fst (main rt stdin tr'))
         \<and> (map_of kvs' ''params'' = Some (JObj ps') \<and> map_of ps' ''arguments'' = None \<longrightarrow>
              handle_call_tool rt (JObj kvs') msg_id tr =
              handle_call_tool rt
                (JObj ((''params'', JObj ((''arguments'', JObj []) # ps')) # kvs')) msg_id tr)"
proof -
  have none: "py_str rt JNull = ''None''"
    by (simp add: py_str_def)
  have run: "handle_message rt (JObj kvs) tr =
           (Inr (JObj [(''jsonrpc'', JStr ''2.0''),
                       (''id'', case map_of kvs ''id'' of Some v \<Rightarrow> v | None \<Rightarrow> JNull),
                       (''error'', JObj [(''code'', JInt (- 32601)),
                                         (''message'', JStr ''Unknown tool: None'')])]),
            tr)"
    unfolding message_tools_call [OF assms(1)]
    using assms(2) by (auto simp add: handle_call_tool_def py_get_JObj none)
  have all: "list_all (\<lambda>resp. error_code resp \<noteq> Some (JInt (- 32602))) (fst (main rt stdin tr'))"
    by (rule main_all) (rule serve_line_code)
  from run all serve_line_code arguments_default show ?thesis by blast
qed

text \<open>
  The theorem at a call without \<^verbatim>\<open>params\<close>, and at a call of
  \<^verbatim>\<open>create_github_repository\<close> without \<^verbatim>\<open>arguments\<close>: the second is answered with a
  Tool Result (the name is missing from the empty dict), not with a protocol error.
\<close>

theorem missing_tool_name_witness:
  "map_of [(''id'', JInt 1), (''method'', JStr ''tools/call'')] ''params'' = None
   \<and> handle_message (stub demo_loads unreachable_api)
        (JObj [(''id'', JInt 1), (''method'', JStr ''tools/call'')]) []
       = (Inr (JObj [(''jsonrpc'', JStr ''2.0''),
                     (''id'', JInt 1),
                     (''error'', JObj [(''code'', JInt (- 32601)),
                                       (''message'', JStr ''Unknown tool: None'')])]),
          [])
   \<and> map_of [(''name'', JStr ''create_github_repository'')] ''arguments'' = None
   \<and> handle_call_tool (stub demo_loads unreachable_api)
        (JObj [(''params'', JObj [(''name'', JStr ''create_github_repository'')])]) (JInt 2) []
       = (Inr (JObj [(''jsonrpc'', JStr ''2.0''),
                     (''id'', JInt 2),
                     (''result'', error_content ''Error: Repository name is required'')]),
          [])"
proof -
  let ?rt = "stub demo_loads unreachable_api"
  let ?kvs = "[(''id'', JInt 1), (''method'', JStr ''tools/call'')]"
  let ?ps = "[(''name'', JStr ''create_github_repository'')]"
  let ?kvs' = "[(''params'', JObj ?ps)]"
  have h1: "map_of ?kvs ''method'' = Some (JStr ''tools/call'')" by simp
  have h2: "map_of ?kvs ''params'' = None" by simp
  have h3: "map_of ?kvs' ''params'' = Some (JObj ?ps)" by simp
  have h4: "map_of ?ps ''arguments'' = None" by simp
  have explicit: "handle_call_tool ?rt
        (JObj ((''params'', JObj ((''arguments'', JObj []) # ?ps)) # ?kvs')) (JInt 2) []
      = (Inr (JObj [(''jsonrpc'', JStr ''2.0''),
                    (''id'', JInt 2),
                    (''result'', error_content ''Error: Repository name is required'')]),
         [])"
    by (simp add: handle_call_tool_def py_get_JObj create_falsy_name)
  from missing_tool_name [OF h1 disjI1, OF h2, of ?rt "[]" "[]" "[]" "[]" ?kvs' ?ps "JInt 2"]
    h2 h3 h4 explicit
  show ?thesis by simp
qed


end
